theory Spec2Isabelle
  imports Main "HOL-Library.Sublist"
begin

section \<open>The Worker of src/index.ts: platform values\<close>

text \<open>
  The Worker is one module: \<open>fetch\<close> (cookie check, routing, hand-over to the OpenAuth
  issuer), \<open>getOrCreateUser\<close>, and the four handlers \<open>handleEditorPage\<close>,
  \<open>handlePublish\<close>, \<open>handleApi\<close> and \<open>handleLogout\<close>; the editor page carries a
  script (\<open>createValueInput\<close>, \<open>addNode\<close>, \<open>collectData\<close>).

  A rejected promise or a thrown exception is the left injection of a sum, a returned
  value the right one. JavaScript strings are \<open>string\<close>; a character stands for one
  code unit below 256.
\<close>

datatype js_error = SyntaxError string | TypeError string | RangeError string | Error string

fun message :: "js_error \<Rightarrow> string" where
  "message (SyntaxError m) = m"
| "message (TypeError m) = m"
| "message (RangeError m) = m"
| "message (Error m) = m"

text \<open>
  A JSON value as \<open>JSON.parse\<close> and \<open>request.json()\<close> produce it. An object is the list
  of its own properties in enumeration order. The number type is a parameter: the three
  operations the code applies to numbers come with it.
\<close>

datatype 'n json =
    JNull
  | JBool bool
  | JNumber 'n
  | JString string
  | JArray "'n json list"
  | JObject "(string \<times> 'n json) list"

record 'n number_ops =
  Number_toString :: "'n \<Rightarrow> string"
  Number_ofString :: "string \<Rightarrow> 'n"
  Number_isFinite :: "'n \<Rightarrow> bool"

subsection \<open>Strings\<close>

text \<open>\<open>Array.prototype.join\<close> on strings.\<close>

fun js_join :: "string \<Rightarrow> string list \<Rightarrow> string" where
  "js_join sep [] = []"
| "js_join sep [x] = x"
| "js_join sep (x # y # ys) = x @ sep @ js_join sep (y # ys)"

text \<open>
  \<open>String.prototype.split\<close> with a separator: the separators are found from the left and
  do not overlap; the empty string splits into one empty piece. The source splits at
  \<open>'; '\<close> and at \<open>'='\<close> only; the empty separator (which splits into code units) is not used,
  and here it leaves the string whole.
\<close>

fun js_split :: "string \<Rightarrow> string \<Rightarrow> string list" where
  "js_split sep [] = [[]]"
| "js_split sep (c # cs) =
     (if sep \<noteq> [] \<and> prefix sep (c # cs)
      then [] # js_split sep (drop (length sep) (c # cs))
      else (case js_split sep cs of [] \<Rightarrow> [[c]] | r # rs \<Rightarrow> (c # r) # rs))"

text \<open>\<open>xs[i]\<close>: \<open>undefined\<close> (here \<open>None\<close>) out of range.\<close>

definition js_index :: "'a list \<Rightarrow> nat \<Rightarrow> 'a option" where
  "js_index xs i = (if i < length xs then Some (xs ! i) else None)"

text \<open>Decimal digits of a natural number, as a template literal prints \<open>${24 * 60 * 60}\<close>.\<close>

function string_of_nat :: "nat \<Rightarrow> string" where
  "string_of_nat n =
     (if n < 10 then [''0123456789'' ! n]
      else string_of_nat (n div 10) @ [''0123456789'' ! (n mod 10)])"
  by pat_completeness auto
termination
  by (relation "measure id") auto

declare string_of_nat.simps [simp del]

definition is_digit :: "char \<Rightarrow> bool" where
  "is_digit c = (48 \<le> (of_char c :: nat) \<and> (of_char c :: nat) \<le> 57)"

text \<open>The number a run of decimal digits stands for.\<close>

definition nat_of_string :: "string \<Rightarrow> nat" where
  "nat_of_string s = foldl (\<lambda>a c. 10 * a + (of_char c - 48)) 0 s"

subsection \<open>\<open>JSON.stringify(value, null, 2)\<close>\<close>

definition hex_digit :: "nat \<Rightarrow> char" where
  "hex_digit n = ''0123456789abcdef'' ! n"

text \<open>QuoteJSONString, one code unit at a time.\<close>

definition quote_unit :: "char \<Rightarrow> string" where
  "quote_unit c =
     (if c = CHR 0x08 then [CHR 0x5C, CHR ''b'']
      else if c = CHR 0x09 then [CHR 0x5C, CHR ''t'']
      else if c = CHR 0x0A then [CHR 0x5C, CHR ''n'']
      else if c = CHR 0x0C then [CHR 0x5C, CHR ''f'']
      else if c = CHR 0x0D then [CHR 0x5C, CHR ''r'']
      else if c = CHR 0x22 then [CHR 0x5C, CHR 0x22]
      else if c = CHR 0x5C then [CHR 0x5C, CHR 0x5C]
      else if (of_char c :: nat) < 32
        then [CHR 0x5C, CHR ''u'', CHR ''0'', CHR ''0'',
              hex_digit (of_char c div 16), hex_digit (of_char c mod 16)]
      else [c])"

definition QuoteJSONString :: "string \<Rightarrow> string" where
  "QuoteJSONString s = [CHR 0x22] @ concat (map quote_unit s) @ [CHR 0x22]"

text \<open>
  SerializeJSONProperty with the gap of two spaces; \<open>ind\<close> is the current indentation.
  A number that is not finite is written \<open>null\<close>.
\<close>

fun SerializeJSONProperty :: "'n number_ops \<Rightarrow> string \<Rightarrow> 'n json \<Rightarrow> string" where
  "SerializeJSONProperty ops ind JNull = ''null''"
| "SerializeJSONProperty ops ind (JBool b) = (if b then ''true'' else ''false'')"
| "SerializeJSONProperty ops ind (JNumber n) =
     (if Number_isFinite ops n then Number_toString ops n else ''null'')"
| "SerializeJSONProperty ops ind (JString s) = QuoteJSONString s"
| "SerializeJSONProperty ops ind (JArray xs) =
     (if xs = [] then ''[]''
      else ''['' @ [CHR 0x0A] @ (ind @ ''  '')
           @ js_join ('','' @ [CHR 0x0A] @ (ind @ ''  ''))
               (map (SerializeJSONProperty ops (ind @ ''  '')) xs)
           @ [CHR 0x0A] @ ind @ '']'')"
| "SerializeJSONProperty ops ind (JObject kvs) =
     (if kvs = [] then ''{}''
      else ''{'' @ [CHR 0x0A] @ (ind @ ''  '')
           @ js_join ('','' @ [CHR 0x0A] @ (ind @ ''  ''))
               (map (\<lambda>kv. QuoteJSONString (fst kv) @ '': ''
                           @ SerializeJSONProperty ops (ind @ ''  '') (snd kv)) kvs)
           @ [CHR 0x0A] @ ind @ ''}'')"

text \<open>\<open>JSON.stringify(undefined, null, 2)\<close> is \<open>undefined\<close>.\<close>

definition JSON_stringify :: "'n number_ops \<Rightarrow> 'n json option \<Rightarrow> string option" where
  "JSON_stringify ops v = map_option (SerializeJSONProperty ops []) v"

section \<open>Responses, store and requests\<close>

text \<open>
  The body of a response. The two HTML templates of \<open>handleEditorPage\<close> are fixed text
  around one interpolated value each, and are kept as the value alone: the binding name
  in the diagnostic page, the stored text in the editor page.
\<close>

datatype body = Text string | MissingKvHtml string | EditorHtml string | NoBody

text \<open>
  The guard of a response's \<open>Headers\<close> object (Fetch Standard): \<open>new Response\<close> gives the
  guard "response"; \<open>Response.redirect\<close> creates its response with the guard "immutable",
  and \<open>Headers.set\<close> on immutable headers throws a \<open>TypeError\<close>.
\<close>

datatype headers_guard = ResponseGuard | Immutable

record response =
  status :: nat
  headers :: "(string \<times> string) list"
  body :: body
  guard :: headers_guard

text \<open>Header names are compared without regard to the case of ASCII letters.\<close>

definition ascii_lower :: "char \<Rightarrow> char" where
  "ascii_lower c =
     (if 65 \<le> (of_char c :: nat) \<and> (of_char c :: nat) \<le> 90
      then ''abcdefghijklmnopqrstuvwxyz'' ! (of_char c - 65)
      else c)"

definition has_header :: "string \<Rightarrow> (string \<times> string) list \<Rightarrow> bool" where
  "has_header name hs =
     (map ascii_lower name \<in> set (map (\<lambda>h. map ascii_lower (fst h)) hs))"

text \<open>
  \<open>new Response(body, { status, headers })\<close>, with the headers of the init object. Every
  body the source gives is a string, and to a string body without a \<open>Content-Type\<close>
  the constructor adds \<open>text/plain;charset=UTF-8\<close> (Fetch Standard).
\<close>

definition Response :: "body \<Rightarrow> nat \<Rightarrow> (string \<times> string) list \<Rightarrow> response" where
  "Response b st hs =
     \<lparr>status = st,
      headers = (if b = NoBody then hs
                 else if has_header ''content-type'' hs then hs
                 else hs @ [(''content-type'', ''text/plain;charset=UTF-8'')]),
      body = b, guard = ResponseGuard\<rparr>"

text \<open>
  \<open>Response.redirect(url, status)\<close>: a \<open>RangeError\<close> unless the status is a redirect
  status; the \<open>Location\<close> header is the URL given (its serialisation is not modelled).
\<close>

definition Response_redirect :: "string \<Rightarrow> nat \<Rightarrow> js_error + response" where
  "Response_redirect url st =
     (if st = 301 \<or> st = 302 \<or> st = 303 \<or> st = 307 \<or> st = 308
      then Inr \<lparr>status = st, headers = [(''Location'', url)], body = NoBody, guard = Immutable\<rparr>
      else Inl (RangeError ''Invalid status code''))"

fun set_header :: "string \<Rightarrow> string \<Rightarrow> (string \<times> string) list \<Rightarrow> (string \<times> string) list" where
  "set_header name v [] = [(name, v)]"
| "set_header name v ((n, w) # hs) =
     (if n = name then (name, v) # hs else (n, w) # set_header name v hs)"

text \<open>\<open>response.headers.set(name, value)\<close>.\<close>

definition headers_set :: "response \<Rightarrow> string \<Rightarrow> string \<Rightarrow> js_error + response" where
  "headers_set r name v =
     (if guard r = Immutable then Inl (TypeError ''Can't modify immutable headers.'')
      else Inr (r\<lparr>headers := set_header name v (headers r)\<rparr>))"

definition header :: "response \<Rightarrow> string \<Rightarrow> string option" where
  "header r name = map_of (headers r) name"

text \<open>
  A key-value namespace: its entries, and whether the service fails (then every \<open>get\<close>
  and \<open>put\<close> rejects with that error).
\<close>

record kv_namespace =
  entries :: "string \<rightharpoonup> string"
  outage :: "js_error option"

definition kv_get :: "kv_namespace \<Rightarrow> string \<Rightarrow> js_error + string option" where
  "kv_get ns key = (case outage ns of Some e \<Rightarrow> Inl e | None \<Rightarrow> Inr (entries ns key))"

text \<open>
  \<open>put(key, value)\<close>. The source passes the result of \<open>JSON.stringify\<close>, which is
  \<open>undefined\<close> when \<open>data\<close> is; what the service does with that value is the parameter
  \<open>undef\<close>: it rejects, or it stores a text.
\<close>

definition kv_put ::
  "js_error + string \<Rightarrow> kv_namespace \<Rightarrow> string \<Rightarrow> string option \<Rightarrow> js_error + kv_namespace" where
  "kv_put undef ns key v =
     (case outage ns of
        Some e \<Rightarrow> Inl e
      | None \<Rightarrow>
          (case v of
             Some t \<Rightarrow> Inr (ns\<lparr>entries := (entries ns)(key \<mapsto> t)\<rparr>)
           | None \<Rightarrow>
               (case undef of
                  Inl e \<Rightarrow> Inl e
                | Inr t \<Rightarrow> Inr (ns\<lparr>entries := (entries ns)(key \<mapsto> t)\<rparr>))))"

text \<open>\<open>env\<close>: the key-value bindings by name; \<open>env[kvBinding]\<close> is \<open>undefined\<close> when unbound.\<close>

type_synonym env = "string \<rightharpoonup> kv_namespace"

text \<open>
  What the Worker reads of a request: the path and origin of \<open>new URL(request.url)\<close>,
  the \<open>Cookie\<close> header, and what \<open>request.json()\<close> settles to (a \<open>SyntaxError\<close> when the
  body is not JSON). The method is never read by the source.
\<close>

record 'n request =
  pathname :: string
  origin :: string
  http_method :: string
  cookie :: "string option"
  request_json :: "js_error + 'n json"

text \<open>
  The libraries and bindings outside the repository: \<open>jwtVerify(token, secret)\<close> of jose
  (whether it resolves), \<open>new SignJWT({id}) ... .sign(secret)\<close>, the prepared statement
  of \<open>env.AUTH_DB\<close> run with \<open>first()\<close> (the row's id, or \<open>null\<close>), and the issuer's
  \<open>fetch\<close>, which is given the \<open>success\<close> callback.
\<close>

record 'n platform =
  numbers :: "'n number_ops"
  jwtVerify :: "string \<Rightarrow> string \<Rightarrow> bool"
  SignJWT :: "string \<Rightarrow> string \<Rightarrow> js_error + string"
  AUTH_DB_first :: "string \<Rightarrow> js_error + string option"
  issuer_fetch ::
    "(string \<Rightarrow> js_error + response) \<Rightarrow> 'n request \<Rightarrow> env \<Rightarrow> (js_error + response) \<times> env"
  put_undefined :: "js_error + string"

definition JWT_SECRET :: string where
  "JWT_SECRET = ''YOUR_SECRET_STRING_AT_LEAST_32_CHARS''"

definition KV_NAMESPACE_BINDING :: string where
  "KV_NAMESPACE_BINDING = ''MY_CONFIG_KV''"

definition CONFIG_KEY :: string where
  "CONFIG_KEY = ''json_config''"

section \<open>The Worker\<close>

subsection \<open>The session cookie\<close>

text \<open>
  \<open>request.headers.get('Cookie')?.split('; ').find(row => row.startsWith('token='))
  ?.split('=')[1]\<close>
\<close>

definition cookie_token :: "string option \<Rightarrow> string option" where
  "cookie_token hdr =
     (case hdr of
        None \<Rightarrow> None
      | Some h \<Rightarrow>
          (case find (prefix ''token='') (js_split ''; '' h) of
             None \<Rightarrow> None
           | Some row \<Rightarrow> js_index (js_split ''='' row) 1))"

text \<open>
  The token that reaches \<open>jwtVerify\<close>: the guard \<open>if (token)\<close> lets neither \<open>undefined\<close>
  nor the empty string through.
\<close>

definition verifier_input :: "'n request \<Rightarrow> string option" where
  "verifier_input request =
     (case cookie_token (cookie request) of
        None \<Rightarrow> None
      | Some t \<Rightarrow> if t = [] then None else Some t)"

subsection \<open>Handlers\<close>

definition handleEditorPage :: "env \<Rightarrow> string \<Rightarrow> string \<Rightarrow> js_error + response" where
  "handleEditorPage env kvBinding configKey =
     (case env kvBinding of
        None \<Rightarrow>
          Inr (Response (MissingKvHtml kvBinding) 500
                 [(''content-type'', ''text/html;charset=UTF-8'')])
      | Some ns \<Rightarrow>
          (case kv_get ns configKey of
             Inl e \<Rightarrow> Inl e
           | Inr got \<Rightarrow>
               (let configData =
                      (case got of None \<Rightarrow> ''{}'' | Some t \<Rightarrow> if t = [] then ''{}'' else t)
                in Inr (Response (EditorHtml configData) 200
                          [(''content-type'', ''text/html;charset=UTF-8'')]))))"

text \<open>
  \<open>const { data } = await request.json()\<close>: destructuring \<open>null\<close> throws; a value without
  the property \<open>data\<close> gives \<open>undefined\<close>.
\<close>

fun destructure_data :: "'n json \<Rightarrow> js_error + 'n json option" where
  "destructure_data JNull =
     Inl (TypeError ''Cannot destructure property 'data' of '(intermediate value)' as it is null.'')"
| "destructure_data (JObject kvs) = Inr (map_of kvs ''data'')"
| "destructure_data v = Inr None"

definition publish_failed :: "js_error \<Rightarrow> response" where
  "publish_failed e = Response (Text (''Error saving config: '' @ message e)) 500 []"

text \<open>Every step is inside the \<open>try\<close> and awaited, so every error ends in the \<open>catch\<close>.\<close>

definition handlePublish ::
  "'n platform \<Rightarrow> 'n request \<Rightarrow> env \<Rightarrow> string \<Rightarrow> string \<Rightarrow> response \<times> env" where
  "handlePublish p request env kvBinding configKey =
     (case request_json request of
        Inl e \<Rightarrow> (publish_failed e, env)
      | Inr v \<Rightarrow>
          (case destructure_data v of
             Inl e \<Rightarrow> (publish_failed e, env)
           | Inr data \<Rightarrow>
               (case env kvBinding of
                  None \<Rightarrow>
                    (publish_failed
                       (TypeError ''Cannot read properties of undefined (reading 'put')''), env)
                | Some ns \<Rightarrow>
                    (case kv_put (put_undefined p) ns configKey
                            (JSON_stringify (numbers p) data) of
                       Inl e \<Rightarrow> (publish_failed e, env)
                     | Inr ns' \<Rightarrow>
                         (Response (Text ''Config saved.'') 200 [], env(kvBinding \<mapsto> ns'))))))"

text \<open>No \<open>try\<close> here, and no test of the binding: \<open>env[kvBinding].get\<close> on \<open>undefined\<close> throws.\<close>

definition handleApi :: "env \<Rightarrow> string \<Rightarrow> string \<Rightarrow> js_error + response" where
  "handleApi env kvBinding configKey =
     (case env kvBinding of
        None \<Rightarrow> Inl (TypeError ''Cannot read properties of undefined (reading 'get')'')
      | Some ns \<Rightarrow>
          (case kv_get ns configKey of
             Inl e \<Rightarrow> Inl e
           | Inr got \<Rightarrow>
               (let configData =
                      (case got of None \<Rightarrow> ''{}'' | Some t \<Rightarrow> if t = [] then ''{}'' else t)
                in Inr (Response (Text configData) 200
                          [(''Content-Type'', ''application/json''),
                           (''Cache-Control'', ''no-store, must-revalidate'')]))))"

definition handleLogout :: response where
  "handleLogout =
     Response (Text ''Logged out'') 302
       [(''Location'', ''/''),
        (''Set-Cookie'', ''token=; HttpOnly; SameSite=Lax; Path=/; Max-Age=0'')]"

subsection \<open>Login completion\<close>

definition getOrCreateUser :: "'n platform \<Rightarrow> string \<Rightarrow> js_error + string" where
  "getOrCreateUser p email =
     (case AUTH_DB_first p email of
        Inl e \<Rightarrow> Inl e
      | Inr None \<Rightarrow> Inl (Error (''Unable to process user: '' @ email))
      | Inr (Some uid) \<Rightarrow> Inr uid)"

text \<open>The value the callback gives to \<open>Set-Cookie\<close>.\<close>

definition session_cookie :: "string \<Rightarrow> string" where
  "session_cookie jwt =
     ''token='' @ jwt @ ''; HttpOnly; SameSite=Lax; Path=/; Max-Age=''
       @ string_of_nat (24 * 60 * 60)"

text \<open>The \<open>success\<close> callback handed to the issuer; \<open>url\<close> is \<open>url.origin\<close> of the request.\<close>

definition success :: "'n platform \<Rightarrow> string \<Rightarrow> string \<Rightarrow> js_error + response" where
  "success p url email =
     (case getOrCreateUser p email of
        Inl e \<Rightarrow> Inl e
      | Inr userId \<Rightarrow>
          (case SignJWT p userId JWT_SECRET of
             Inl e \<Rightarrow> Inl e
           | Inr jwt \<Rightarrow>
               (case Response_redirect url 302 of
                  Inl e \<Rightarrow> Inl e
                | Inr response \<Rightarrow> headers_set response ''Set-Cookie'' (session_cookie jwt))))"

subsection \<open>\<open>fetch\<close>\<close>

text \<open>
  The \<open>try\<close> around the routes catches what \<open>jwtVerify\<close> throws. The handlers are
  \<open>async\<close> and their promises are returned without \<open>await\<close>, so a rejection of a handler
  is not caught there: it is the rejection of \<open>fetch\<close> itself. The result is the
  response or the rejection, and the bindings afterwards.
\<close>

definition fetch :: "'n platform \<Rightarrow> 'n request \<Rightarrow> env \<Rightarrow> (js_error + response) \<times> env" where
  "fetch p request env =
     (let login = issuer_fetch p (success p (origin request)) request env
      in case verifier_input request of
           None \<Rightarrow> login
         | Some token \<Rightarrow>
             if jwtVerify p token JWT_SECRET
             then (if pathname request = ''/''
                   then (handleEditorPage env KV_NAMESPACE_BINDING CONFIG_KEY, env)
                   else if pathname request = ''/publish''
                   then (case handlePublish p request env KV_NAMESPACE_BINDING CONFIG_KEY of
                           (r, env') \<Rightarrow> (Inr r, env'))
                   else if pathname request = ''/api/config''
                   then (handleApi env KV_NAMESPACE_BINDING CONFIG_KEY, env)
                   else if pathname request = ''/logout''
                   then (Inr handleLogout, env)
                   else (Inr (Response (Text ''Not Found'') 404 []), env))
             else login)"

section \<open>The script of the editor page\<close>

text \<open>
  The page holds the stored text inside a template literal,
  \<open>const initialConfig = JSON.parse(`${configData}`)\<close> with \<open>configData\<close> pasted in as it
  is. So the script first evaluates the literal, then parses its value as JSON. An
  outcome is a value, a \<open>SyntaxError\<close>, or \<open>Unmodelled\<close> where this embedding gives no
  answer (a code unit above 255, text that is no longer one template literal).
\<close>

datatype 'a outcome = Done 'a | SyntaxFailure | Unmodelled


definition hex_value :: "char \<Rightarrow> nat option" where
  "hex_value c =
     (if 48 \<le> (of_char c :: nat) \<and> (of_char c :: nat) \<le> 57 then Some (of_char c - 48)
      else if 97 \<le> (of_char c :: nat) \<and> (of_char c :: nat) \<le> 102 then Some (of_char c - 87)
      else if 65 \<le> (of_char c :: nat) \<and> (of_char c :: nat) \<le> 70 then Some (of_char c - 55)
      else None)"

subsection \<open>The value of the template literal\<close>

text \<open>
  The escape after a backslash inside a template literal, with the text \<open>ds\<close> after
  the escaped character \<open>d\<close>: the character it stands for (none for a line
  continuation) and the text left. Octal escapes and malformed \<open>\x\<close>, \<open>\u\<close> are early
  errors; \<open>\u{...}\<close> and code units above 255 are not modelled.
\<close>

definition template_escape :: "char \<Rightarrow> string \<Rightarrow> (string \<times> string) outcome" where
  "template_escape d ds =
     (if d = CHR ''n'' then Done ([CHR 0x0A], ds)
      else if d = CHR ''r'' then Done ([CHR 0x0D], ds)
      else if d = CHR ''t'' then Done ([CHR 0x09], ds)
      else if d = CHR ''b'' then Done ([CHR 0x08], ds)
      else if d = CHR ''f'' then Done ([CHR 0x0C], ds)
      else if d = CHR ''v'' then Done ([CHR 0x0B], ds)
      else if d = CHR ''0'' then
        (case ds of
           [] \<Rightarrow> Done ([CHR 0x00], ds)
         | e # es \<Rightarrow> if is_digit e then SyntaxFailure else Done ([CHR 0x00], ds))
      else if is_digit d then SyntaxFailure
      else if d = CHR ''x'' then
        (case ds of
           h1 # h2 # r \<Rightarrow>
             (case (hex_value h1, hex_value h2) of
                (Some a, Some b) \<Rightarrow> Done ([char_of (16 * a + b)], r)
              | _ \<Rightarrow> SyntaxFailure)
         | _ \<Rightarrow> SyntaxFailure)
      else if d = CHR ''u'' then
        (case ds of
           [] \<Rightarrow> SyntaxFailure
         | e # es \<Rightarrow>
             if e = CHR ''{'' then Unmodelled
             else
               (case ds of
                  h1 # h2 # h3 # h4 # r \<Rightarrow>
                    (case (hex_value h1, hex_value h2, hex_value h3, hex_value h4) of
                       (Some a, Some b, Some c, Some d) \<Rightarrow>
                         if a = 0 \<and> b = 0 then Done ([char_of (16 * c + d)], r) else Unmodelled
                     | _ \<Rightarrow> SyntaxFailure)
                | _ \<Rightarrow> SyntaxFailure))
      else if d = CHR 0x0A then Done ([], ds)
      else if d = CHR 0x0D then
        (case ds of
           [] \<Rightarrow> Done ([], ds)
         | e # es \<Rightarrow> if e = CHR 0x0A then Done ([], es) else Done ([], ds))
      else Done ([d], ds))"



subsection \<open>\<open>JSON.parse\<close>\<close>

definition is_ws :: "char \<Rightarrow> bool" where
  "is_ws c = (c = CHR 0x20 \<or> c = CHR 0x09 \<or> c = CHR 0x0A \<or> c = CHR 0x0D)"

definition skip_ws :: "string \<Rightarrow> string" where
  "skip_ws s = dropWhile is_ws s"














subsection \<open>The rows\<close>

















subsection \<open>The page as loaded\<close>






section \<open>Conditions on documents, and sample values\<close>





text \<open>
  Notions for the proofs about the text of a document: a character that a JSON string
  holds unescaped; a character that follows a value in the printed text; a value of
  the three row types as the parser reads it back; the text of one member; a member
  with a plain key and such a value.
\<close>

definition plain :: "char \<Rightarrow> bool" where
  "plain c = (c \<noteq> CHR 0x22 \<and> c \<noteq> CHR 0x5C \<and> 32 \<le> (of_char c :: nat))"





text \<open>Natural numbers written in decimal, as one instance of the number operations.\<close>

definition decimal_numbers :: "nat number_ops" where
  "decimal_numbers =
     \<lparr>Number_toString = string_of_nat, Number_ofString = nat_of_string,
      Number_isFinite = (\<lambda>n. True)\<rparr>"

text \<open>
  A platform in which one token verifies, the user store answers with one id, the
  issuer answers every request with its login page, and \<open>put\<close> rejects \<open>undefined\<close>.
\<close>

definition sample_platform :: "nat platform" where
  "sample_platform =
     \<lparr>numbers = decimal_numbers,
      jwtVerify = (\<lambda>token secret. token = ''header.payload.signature'' \<and> secret = JWT_SECRET),
      SignJWT = (\<lambda>userId secret. Inr ''header.payload.signature''),
      AUTH_DB_first = (\<lambda>email. Inr (Some ''user-1'')),
      issuer_fetch = (\<lambda>callback request env. (Inr (Response (Text ''login'') 200 []), env)),
      put_undefined = Inl (TypeError ''value is undefined'')\<rparr>"

text \<open>A request that carries the verifying token, with a body that is not JSON.\<close>

definition sample_request :: "nat request" where
  "sample_request =
     \<lparr>pathname = ''/'', origin = ''https://example.com'', http_method = ''GET'',
      cookie = Some ''token=header.payload.signature'',
      request_json = Inl (SyntaxError ''Unexpected end of JSON input'')\<rparr>"

definition empty_namespace :: kv_namespace where
  "empty_namespace = \<lparr>entries = Map.empty, outage = None\<rparr>"

definition failing_namespace :: kv_namespace where
  "failing_namespace = \<lparr>entries = Map.empty, outage = Some (Error ''KV GET failed'')\<rparr>"

definition no_bindings :: env where
  "no_bindings = Map.empty"

definition sample_env :: env where
  "sample_env = no_bindings(KV_NAMESPACE_BINDING \<mapsto> empty_namespace)"

section \<open>Routing of authenticated requests\<close>

lemma sample_request_token:
  "verifier_input sample_request = Some ''header.payload.signature''"
  by (simp add: verifier_input_def cookie_token_def sample_request_def js_index_def)

lemma sample_token_verifies:
  "jwtVerify sample_platform ''header.payload.signature'' JWT_SECRET"
  by (simp add: sample_platform_def)

lemma fetch_authenticated:
  assumes "verifier_input request = Some token" and "jwtVerify p token JWT_SECRET"
  shows "fetch p request env =
     (if pathname request = ''/''
      then (handleEditorPage env KV_NAMESPACE_BINDING CONFIG_KEY, env)
      else if pathname request = ''/publish''
      then (Inr (fst (handlePublish p request env KV_NAMESPACE_BINDING CONFIG_KEY)),
            snd (handlePublish p request env KV_NAMESPACE_BINDING CONFIG_KEY))
      else if pathname request = ''/api/config''
      then (handleApi env KV_NAMESPACE_BINDING CONFIG_KEY, env)
      else if pathname request = ''/logout''
      then (Inr handleLogout, env)
      else (Inr (Response (Text ''Not Found'') 404 []), env))"
  using assms by (simp add: fetch_def split: prod.splits)

section \<open>Publishing\<close>

lemma handlePublish_not_json:
  "request_json request = Inl e \<Longrightarrow>
   handlePublish p request env kvBinding configKey = (publish_failed e, env)"
  by (simp add: handlePublish_def)

lemma handlePublish_null:
  "request_json request = Inr JNull \<Longrightarrow>
   handlePublish p request env kvBinding configKey =
     (publish_failed
        (TypeError ''Cannot destructure property 'data' of '(intermediate value)' as it is null.''),
      env)"
  by (simp add: handlePublish_def)

lemma handlePublish_data:
  assumes "request_json request = Inr (JObject kvs)" and "map_of kvs ''data'' = Some d"
    and "env kvBinding = Some ns" and "outage ns = None"
  shows "handlePublish p request env kvBinding configKey =
     (Response (Text ''Config saved.'') 200 [],
      env(kvBinding \<mapsto>
        ns\<lparr>entries := (entries ns)(configKey \<mapsto> SerializeJSONProperty (numbers p) [] d)\<rparr>))"
  using assms by (simp add: handlePublish_def kv_put_def JSON_stringify_def)

lemma handlePublish_no_data:
  assumes "request_json request = Inr v" and "destructure_data v = Inr None"
    and "env kvBinding = Some ns" and "outage ns = None"
  shows "handlePublish p request env kvBinding configKey =
     (case put_undefined p of
        Inl e \<Rightarrow> (publish_failed e, env)
      | Inr t \<Rightarrow>
          (Response (Text ''Config saved.'') 200 [],
           env(kvBinding \<mapsto> ns\<lparr>entries := (entries ns)(configKey \<mapsto> t)\<rparr>)))"
  using assms by (simp add: handlePublish_def kv_put_def JSON_stringify_def split: sum.splits)

lemma destructure_no_data:
  assumes "v \<noteq> JNull" and "\<forall>kvs. v = JObject kvs \<longrightarrow> map_of kvs ''data'' = None"
  shows "destructure_data v = Inr None"
  using assms by (cases v) simp_all

lemma publish_failed_response:
  "publish_failed e =
     \<lparr>status = 500, headers = [(''content-type'', ''text/plain;charset=UTF-8'')],
      body = Text (''Error saving config: '' @ message e), guard = ResponseGuard\<rparr>"
  by (simp add: publish_failed_def Response_def has_header_def)

lemma config_saved_response:
  "Response (Text ''Config saved.'') 200 [] =
     \<lparr>status = 200, headers = [(''content-type'', ''text/plain;charset=UTF-8'')],
      body = Text ''Config saved.'', guard = ResponseGuard\<rparr>"
  by (simp add: Response_def has_header_def)

text \<open>
  C1, as the code has it. For a request with a verified token and the path
  \<open>/publish\<close> (the method is not looked at), the body is read with \<open>request.json()\<close> and
  its member \<open>data\<close> is taken, with no test of what \<open>data\<close> is.
  \<^item> A body that is not JSON is answered with status 500 and the text
    \<open>Error saving config: \<close> followed by the message of the error; the bindings stay as
    they were.
  \<^item> The body \<open>null\<close> is answered in the same way, with the message of the error that
    destructuring \<open>null\<close> throws.
  \<^item> A body that is a JSON object with a member \<open>data\<close>, whatever JSON value that
    member is, is answered with \<open>Config saved.\<close> and status 200 when the store is bound and
    working, and the configuration key then holds \<open>JSON.stringify(data, null, 2)\<close>.
  \<^item> Any other JSON body has no member \<open>data\<close>, and \<open>put\<close> is given \<open>undefined\<close>: with
    the store bound and working the answer is what the binding does with that value,
    status 500 with its error when it rejects, and \<open>Config saved.\<close> with status 200 and the
    text it stores otherwise.
\<close>

theorem publish_outcomes:
  assumes "verifier_input request = Some token" and "jwtVerify p token JWT_SECRET"
    and "pathname request = ''/publish''"
  shows "(\<forall>e. request_json request = Inl e \<longrightarrow>
            fetch p request env =
              (Inr \<lparr>status = 500, headers = [(''content-type'', ''text/plain;charset=UTF-8'')],
                    body = Text (''Error saving config: '' @ message e),
                    guard = ResponseGuard\<rparr>, env))
       \<and> (request_json request = Inr JNull \<longrightarrow>
            fetch p request env =
              (Inr \<lparr>status = 500, headers = [(''content-type'', ''text/plain;charset=UTF-8'')],
                    body = Text (''Error saving config: '' @
                      ''Cannot destructure property 'data' of '(intermediate value)' as it is null.''),
                    guard = ResponseGuard\<rparr>, env))
       \<and> (\<forall>kvs d ns. request_json request = Inr (JObject kvs) \<and> map_of kvs ''data'' = Some d
              \<and> env KV_NAMESPACE_BINDING = Some ns \<and> outage ns = None \<longrightarrow>
            fetch p request env =
              (Inr \<lparr>status = 200, headers = [(''content-type'', ''text/plain;charset=UTF-8'')],
                    body = Text ''Config saved.'', guard = ResponseGuard\<rparr>,
               env(KV_NAMESPACE_BINDING \<mapsto>
                 ns\<lparr>entries := (entries ns)
                      (CONFIG_KEY \<mapsto> SerializeJSONProperty (numbers p) [] d)\<rparr>)))
       \<and> (\<forall>v ns. request_json request = Inr v \<and> v \<noteq> JNull
              \<and> (\<forall>kvs. v = JObject kvs \<longrightarrow> map_of kvs ''data'' = None)
              \<and> env KV_NAMESPACE_BINDING = Some ns \<and> outage ns = None \<longrightarrow>
            fetch p request env =
              (case put_undefined p of
                 Inl e \<Rightarrow>
                   (Inr \<lparr>status = 500,
                         headers = [(''content-type'', ''text/plain;charset=UTF-8'')],
                         body = Text (''Error saving config: '' @ message e),
                         guard = ResponseGuard\<rparr>, env)
               | Inr t \<Rightarrow>
                   (Inr \<lparr>status = 200,
                         headers = [(''content-type'', ''text/plain;charset=UTF-8'')],
                         body = Text ''Config saved.'', guard = ResponseGuard\<rparr>,
                    env(KV_NAMESPACE_BINDING \<mapsto>
                      ns\<lparr>entries := (entries ns)(CONFIG_KEY \<mapsto> t)\<rparr>))))"
proof (intro conjI allI impI)
  fix e assume "request_json request = Inl e"
  then show "fetch p request env =
      (Inr \<lparr>status = 500, headers = [(''content-type'', ''text/plain;charset=UTF-8'')],
            body = Text (''Error saving config: '' @ message e), guard = ResponseGuard\<rparr>, env)"
    using assms by (simp add: fetch_authenticated handlePublish_not_json publish_failed_response)
next
  assume "request_json request = Inr JNull"
  then show "fetch p request env =
      (Inr \<lparr>status = 500, headers = [(''content-type'', ''text/plain;charset=UTF-8'')],
            body = Text (''Error saving config: '' @
              ''Cannot destructure property 'data' of '(intermediate value)' as it is null.''),
            guard = ResponseGuard\<rparr>, env)"
    using assms by (simp add: fetch_authenticated handlePublish_null publish_failed_response)
next
  fix kvs d ns
  assume "request_json request = Inr (JObject kvs) \<and> map_of kvs ''data'' = Some d
          \<and> env KV_NAMESPACE_BINDING = Some ns \<and> outage ns = None"
  then show "fetch p request env =
      (Inr \<lparr>status = 200, headers = [(''content-type'', ''text/plain;charset=UTF-8'')],
            body = Text ''Config saved.'', guard = ResponseGuard\<rparr>,
       env(KV_NAMESPACE_BINDING \<mapsto>
         ns\<lparr>entries := (entries ns)(CONFIG_KEY \<mapsto> SerializeJSONProperty (numbers p) [] d)\<rparr>))"
    using assms
    by (simp add: fetch_authenticated handlePublish_data config_saved_response)
next
  fix v ns
  assume a: "request_json request = Inr v \<and> v \<noteq> JNull
          \<and> (\<forall>kvs. v = JObject kvs \<longrightarrow> map_of kvs ''data'' = None)
          \<and> env KV_NAMESPACE_BINDING = Some ns \<and> outage ns = None"
  then have "destructure_data v = Inr None"
    by (intro destructure_no_data) auto
  with a have "handlePublish p request env KV_NAMESPACE_BINDING CONFIG_KEY =
     (case put_undefined p of
        Inl e \<Rightarrow> (publish_failed e, env)
      | Inr t \<Rightarrow>
          (Response (Text ''Config saved.'') 200 [],
           env(KV_NAMESPACE_BINDING \<mapsto> ns\<lparr>entries := (entries ns)(CONFIG_KEY \<mapsto> t)\<rparr>)))"
    by (intro handlePublish_no_data) auto
  then show "fetch p request env =
      (case put_undefined p of
         Inl e \<Rightarrow>
           (Inr \<lparr>status = 500, headers = [(''content-type'', ''text/plain;charset=UTF-8'')],
                 body = Text (''Error saving config: '' @ message e),
                 guard = ResponseGuard\<rparr>, env)
       | Inr t \<Rightarrow>
           (Inr \<lparr>status = 200, headers = [(''content-type'', ''text/plain;charset=UTF-8'')],
                 body = Text ''Config saved.'', guard = ResponseGuard\<rparr>,
            env(KV_NAMESPACE_BINDING \<mapsto> ns\<lparr>entries := (entries ns)(CONFIG_KEY \<mapsto> t)\<rparr>)))"
    using assms
    by (simp add: fetch_authenticated publish_failed_response config_saved_response
        split: sum.splits)
qed

theorem publish_outcomes_witness:
  "fetch sample_platform
     (sample_request\<lparr>pathname := ''/publish'', http_method := ''POST'',
        request_json := Inr (JObject [(''data'', JObject [(''x'', JBool True)])])\<rparr>)
     sample_env
   = (Inr \<lparr>status = 200, headers = [(''content-type'', ''text/plain;charset=UTF-8'')],
           body = Text ''Config saved.'', guard = ResponseGuard\<rparr>,
      sample_env(KV_NAMESPACE_BINDING \<mapsto>
        empty_namespace\<lparr>entries := (entries empty_namespace)
          (CONFIG_KEY \<mapsto>
             SerializeJSONProperty decimal_numbers [] (JObject [(''x'', JBool True)]))\<rparr>))
   \<and> fetch sample_platform (sample_request\<lparr>pathname := ''/publish'', http_method := ''POST''\<rparr>)
       sample_env
     = (Inr \<lparr>status = 500, headers = [(''content-type'', ''text/plain;charset=UTF-8'')],
             body = Text ''Error saving config: Unexpected end of JSON input'',
             guard = ResponseGuard\<rparr>,
        sample_env)"
proof -
  let ?ok = "sample_request\<lparr>pathname := ''/publish'', http_method := ''POST'',
        request_json := Inr (JObject [(''data'', JObject [(''x'', JBool True)])])\<rparr>"
  let ?bad = "sample_request\<lparr>pathname := ''/publish'', http_method := ''POST''\<rparr>"
  have tok: "verifier_input ?ok = Some ''header.payload.signature''"
    "verifier_input ?bad = Some ''header.payload.signature''"
    using sample_request_token by (simp_all add: verifier_input_def)
  have ns: "sample_env KV_NAMESPACE_BINDING = Some empty_namespace" "outage empty_namespace = None"
    by (simp_all add: sample_env_def empty_namespace_def)
  have bad: "request_json ?bad = Inl (SyntaxError ''Unexpected end of JSON input'')"
    by (simp add: sample_request_def)
  have first: "fetch sample_platform ?ok sample_env
   = (Inr \<lparr>status = 200, headers = [(''content-type'', ''text/plain;charset=UTF-8'')],
           body = Text ''Config saved.'', guard = ResponseGuard\<rparr>,
      sample_env(KV_NAMESPACE_BINDING \<mapsto>
        empty_namespace\<lparr>entries := (entries empty_namespace)
          (CONFIG_KEY \<mapsto>
             SerializeJSONProperty (numbers sample_platform) []
               (JObject [(''x'', JBool True)]))\<rparr>))"
    using publish_outcomes [OF tok(1) sample_token_verifies, of sample_env] ns by simp
  have second: "fetch sample_platform ?bad sample_env
     = (Inr \<lparr>status = 500, headers = [(''content-type'', ''text/plain;charset=UTF-8'')],
             body = Text (''Error saving config: '' @
               message (SyntaxError ''Unexpected end of JSON input'')),
             guard = ResponseGuard\<rparr>,
        sample_env)"
    using publish_outcomes [OF tok(2) sample_token_verifies, of sample_env] bad by simp
  have "numbers sample_platform = decimal_numbers"
    by (simp add: sample_platform_def)
  with first second show ?thesis by simp
qed

theorem publish_accepts_non_object:
  "fst (fetch sample_platform
          (sample_request\<lparr>pathname := ''/publish'', http_method := ''POST'',
             request_json := Inr (JObject [(''data'', JBool True)])\<rparr>)
          sample_env)
     = Inr \<lparr>status = 200, headers = [(''content-type'', ''text/plain;charset=UTF-8'')],
            body = Text ''Config saved.'', guard = ResponseGuard\<rparr>
   \<and> snd (fetch sample_platform
          (sample_request\<lparr>pathname := ''/publish'', http_method := ''POST'',
             request_json := Inr (JObject [(''data'', JBool True)])\<rparr>)
          sample_env)
     = sample_env(KV_NAMESPACE_BINDING \<mapsto>
         empty_namespace\<lparr>entries := (entries empty_namespace)(CONFIG_KEY \<mapsto> ''true'')\<rparr>)"
proof -
  let ?r = "sample_request\<lparr>pathname := ''/publish'', http_method := ''POST'',
             request_json := Inr (JObject [(''data'', JBool True)])\<rparr>"
  have tok: "verifier_input ?r = Some ''header.payload.signature''"
    using sample_request_token by (simp add: verifier_input_def)
  have "handlePublish sample_platform ?r sample_env KV_NAMESPACE_BINDING CONFIG_KEY =
     (Response (Text ''Config saved.'') 200 [],
      sample_env(KV_NAMESPACE_BINDING \<mapsto>
        empty_namespace\<lparr>entries := (entries empty_namespace)
          (CONFIG_KEY \<mapsto> SerializeJSONProperty (numbers sample_platform) [] (JBool True))\<rparr>))"
    by (rule handlePublish_data [where kvs = "[(''data'', JBool True)]"])
       (simp_all add: sample_env_def empty_namespace_def)
  then show ?thesis
    using fetch_authenticated [OF tok sample_token_verifies, of sample_env]
    by (simp add: config_saved_response)
qed

text \<open>
  C10. A request with a verified token and the path \<open>/publish\<close> whose body does not
  parse as JSON is answered with status 500, and the bindings (so the stored document)
  are what they were: \<open>put\<close> is never reached.
\<close>

theorem publish_parse_failure:
  assumes "verifier_input request = Some token" and "jwtVerify p token JWT_SECRET"
    and "pathname request = ''/publish''" and "request_json request = Inl e"
  shows "\<exists>r. fetch p request env = (Inr r, env) \<and> status r = 500
           \<and> body r = Text (''Error saving config: '' @ message e)"
  using assms
  by (simp add: fetch_authenticated handlePublish_not_json publish_failed_def Response_def)

theorem publish_parse_failure_witness:
  "\<exists>r. fetch sample_platform (sample_request\<lparr>pathname := ''/publish'', http_method := ''POST''\<rparr>)
          sample_env = (Inr r, sample_env)
       \<and> status r = 500
       \<and> body r = Text ''Error saving config: Unexpected end of JSON input''"
proof -
  let ?bad = "sample_request\<lparr>pathname := ''/publish'', http_method := ''POST''\<rparr>"
  have tok: "verifier_input ?bad = Some ''header.payload.signature''"
    using sample_request_token by (simp add: verifier_input_def)
  have bad: "request_json ?bad = Inl (SyntaxError ''Unexpected end of JSON input'')"
    by (simp add: sample_request_def)
  show ?thesis
    using publish_parse_failure [OF tok sample_token_verifies _ bad, of sample_env] by simp
qed

section \<open>Reading the stored document\<close>

lemma handleApi_bound:
  "env kvBinding = Some ns \<Longrightarrow>
   handleApi env kvBinding configKey =
     (case kv_get ns configKey of
        Inl e \<Rightarrow> Inl e
      | Inr got \<Rightarrow>
          Inr (Response
                 (Text (case got of None \<Rightarrow> ''{}'' | Some t \<Rightarrow> if t = [] then ''{}'' else t)) 200
                 [(''Content-Type'', ''application/json''),
                  (''Cache-Control'', ''no-store, must-revalidate'')]))"
  by (simp add: handleApi_def split: sum.splits)

lemma handleEditorPage_bound:
  "env kvBinding = Some ns \<Longrightarrow>
   handleEditorPage env kvBinding configKey =
     (case kv_get ns configKey of
        Inl e \<Rightarrow> Inl e
      | Inr got \<Rightarrow>
          Inr (Response
                 (EditorHtml (case got of None \<Rightarrow> ''{}'' | Some t \<Rightarrow> if t = [] then ''{}'' else t))
                 200 [(''content-type'', ''text/html;charset=UTF-8'')]))"
  by (simp add: handleEditorPage_def split: sum.splits)

lemma kv_put_then_get:
  "kv_put undef ns key (Some T) = Inr ns' \<Longrightarrow> kv_get ns' key = Inr (Some T)"
  by (auto simp: kv_put_def kv_get_def split: option.splits)

lemma SerializeJSONProperty_not_Nil:
  assumes "\<And>n. v = JNumber n \<Longrightarrow> Number_toString ops n \<noteq> []"
  shows "SerializeJSONProperty ops ind v \<noteq> []"
  using assms by (cases v) (auto simp: QuoteJSONString_def)

lemma publish_then_read:
  assumes "request_json request = Inr (JObject kvs)" and "map_of kvs ''data'' = Some d"
    and "env KV_NAMESPACE_BINDING = Some ns" and "outage ns = None"
    and "\<And>n. d = JNumber n \<Longrightarrow> Number_toString (numbers p) n \<noteq> []"
  shows "handleApi (snd (handlePublish p request env KV_NAMESPACE_BINDING CONFIG_KEY))
              KV_NAMESPACE_BINDING CONFIG_KEY
         = Inr (Response (Text (SerializeJSONProperty (numbers p) [] d)) 200
                  [(''Content-Type'', ''application/json''),
                   (''Cache-Control'', ''no-store, must-revalidate'')])"
proof -
  have "SerializeJSONProperty (numbers p) [] d \<noteq> []"
    using assms(5) by (rule SerializeJSONProperty_not_Nil)
  then show ?thesis
    using assms(1-4)
    by (simp add: handlePublish_data handleApi_bound kv_get_def)
qed

text \<open>
  C5. The write is the one of \<open>handlePublish\<close>, the read the one of \<open>handleApi\<close>. A
  request with a verified token to \<open>/publish\<close> whose body carries the value \<open>data\<close>, with
  the store bound and working, writes the text \<open>T = JSON.stringify(data, null, 2)\<close>; a
  request with a verified token to \<open>/api/config\<close> on the bindings as that publish left
  them is answered with status 200 and exactly \<open>T\<close>, and leaves the bindings as they are.
  This holds for every JSON value \<open>data\<close>; the one proviso is on the platform's number
  printing, which must not give the empty text when \<open>data\<close> is itself a number.
\<close>

theorem write_then_read:
  assumes "verifier_input publish = Some token" and "jwtVerify p token JWT_SECRET"
    and "pathname publish = ''/publish''"
    and "request_json publish = Inr (JObject kvs)" and "map_of kvs ''data'' = Some d"
    and "env KV_NAMESPACE_BINDING = Some ns" and "outage ns = None"
    and "verifier_input reading = Some token'" and "jwtVerify p token' JWT_SECRET"
    and "pathname reading = ''/api/config''"
    and "\<And>n. d = JNumber n \<Longrightarrow> Number_toString (numbers p) n \<noteq> []"
  shows "\<exists>r. fetch p reading (snd (fetch p publish env)) = (Inr r, snd (fetch p publish env))
           \<and> status r = 200
           \<and> body r = Text (SerializeJSONProperty (numbers p) [] d)"
proof -
  have after: "snd (fetch p publish env)
      = snd (handlePublish p publish env KV_NAMESPACE_BINDING CONFIG_KEY)"
    using assms(1-3) by (simp add: fetch_authenticated)
  have "fetch p reading (snd (fetch p publish env))
      = (handleApi (snd (fetch p publish env)) KV_NAMESPACE_BINDING CONFIG_KEY,
         snd (fetch p publish env))"
    using assms(8-10) by (simp add: fetch_authenticated)
  moreover have "handleApi (snd (handlePublish p publish env KV_NAMESPACE_BINDING CONFIG_KEY))
              KV_NAMESPACE_BINDING CONFIG_KEY
         = Inr (Response (Text (SerializeJSONProperty (numbers p) [] d)) 200
                  [(''Content-Type'', ''application/json''),
                   (''Cache-Control'', ''no-store, must-revalidate'')])"
    using assms(4-7,11) by (intro publish_then_read [where kvs = kvs and ns = ns]) auto
  ultimately show ?thesis
    using after by (simp add: Response_def)
qed

theorem write_then_read_witness:
  "\<exists>r. fetch sample_platform (sample_request\<lparr>pathname := ''/api/config''\<rparr>)
          (snd (fetch sample_platform
                  (sample_request\<lparr>pathname := ''/publish'', http_method := ''POST'',
                     request_json := Inr (JObject [(''data'', JObject [(''x'', JBool True)])])\<rparr>)
                  sample_env))
        = (Inr r,
           snd (fetch sample_platform
                  (sample_request\<lparr>pathname := ''/publish'', http_method := ''POST'',
                     request_json := Inr (JObject [(''data'', JObject [(''x'', JBool True)])])\<rparr>)
                  sample_env))
       \<and> status r = 200
       \<and> body r = Text (SerializeJSONProperty (numbers sample_platform) []
                          (JObject [(''x'', JBool True)]))"
proof -
  let ?pub = "sample_request\<lparr>pathname := ''/publish'', http_method := ''POST'',
        request_json := Inr (JObject [(''data'', JObject [(''x'', JBool True)])])\<rparr>"
  let ?get = "sample_request\<lparr>pathname := ''/api/config''\<rparr>"
  have tok: "verifier_input ?pub = Some ''header.payload.signature''"
    "verifier_input ?get = Some ''header.payload.signature''"
    using sample_request_token by (simp_all add: verifier_input_def)
  have ns: "sample_env KV_NAMESPACE_BINDING = Some empty_namespace" "outage empty_namespace = None"
    by (simp_all add: sample_env_def empty_namespace_def)
  show ?thesis
    using write_then_read [of ?pub "''header.payload.signature''" sample_platform
        "[(''data'', JObject [(''x'', JBool True)])]" "JObject [(''x'', JBool True)]"
        sample_env empty_namespace ?get "''header.payload.signature''"]
      tok sample_token_verifies ns
    by simp
qed

text \<open>
  C6. When the store is bound and \<open>get\<close> of the configuration key resolves with
  \<open>null\<close> (the key is absent), both readers continue with the text \<open>{}\<close>: \<open>handleApi\<close>
  answers with it, \<open>handleEditorPage\<close> embeds it. With the store bound, either reader
  fails only with an error of \<open>get\<close> itself.
\<close>

theorem read_absent_key:
  assumes "env KV_NAMESPACE_BINDING = Some ns"
  shows "(kv_get ns CONFIG_KEY = Inr None \<longrightarrow>
            (\<exists>r. handleApi env KV_NAMESPACE_BINDING CONFIG_KEY = Inr r
                 \<and> status r = 200 \<and> body r = Text ''{}'')
          \<and> (\<exists>r. handleEditorPage env KV_NAMESPACE_BINDING CONFIG_KEY = Inr r
                 \<and> status r = 200 \<and> body r = EditorHtml ''{}''))
       \<and> (\<forall>e. handleApi env KV_NAMESPACE_BINDING CONFIG_KEY = Inl e \<longrightarrow>
              kv_get ns CONFIG_KEY = Inl e)
       \<and> (\<forall>e. handleEditorPage env KV_NAMESPACE_BINDING CONFIG_KEY = Inl e \<longrightarrow>
              kv_get ns CONFIG_KEY = Inl e)"
  using assms
  by (auto simp: handleApi_bound handleEditorPage_bound Response_def split: sum.splits)

theorem read_absent_key_witness:
  "(\<exists>r. handleApi sample_env KV_NAMESPACE_BINDING CONFIG_KEY = Inr r
        \<and> status r = 200 \<and> body r = Text ''{}'')
   \<and> (\<exists>r. handleEditorPage sample_env KV_NAMESPACE_BINDING CONFIG_KEY = Inr r
        \<and> status r = 200 \<and> body r = EditorHtml ''{}'')"
proof -
  have "sample_env KV_NAMESPACE_BINDING = Some empty_namespace"
    by (simp add: sample_env_def)
  moreover have "kv_get empty_namespace CONFIG_KEY = Inr None"
    by (simp add: kv_get_def empty_namespace_def)
  ultimately show ?thesis
    using read_absent_key [of sample_env empty_namespace] by simp
qed



text \<open>
  C9. A request with a verified token and the path \<open>/logout\<close>: the response has status
  302, \<open>Location\<close> is \<open>/\<close>, and \<open>Set-Cookie\<close> sets the cookie \<open>token\<close> to the empty value
  with \<open>Max-Age=0\<close>.
\<close>

theorem logout_response:
  assumes "verifier_input request = Some token" and "jwtVerify p token JWT_SECRET"
    and "pathname request = ''/logout''"
  shows "\<exists>r. fetch p request env = (Inr r, env) \<and> status r = 302
           \<and> header r ''Location'' = Some ''/''
           \<and> header r ''Set-Cookie''
               = Some ''token=; HttpOnly; SameSite=Lax; Path=/; Max-Age=0''"
  using assms
  by (simp add: fetch_authenticated handleLogout_def Response_def header_def)

theorem logout_response_witness:
  "\<exists>r. fetch sample_platform (sample_request\<lparr>pathname := ''/logout''\<rparr>) sample_env
          = (Inr r, sample_env)
       \<and> status r = 302 \<and> header r ''Location'' = Some ''/''
       \<and> header r ''Set-Cookie'' = Some ''token=; HttpOnly; SameSite=Lax; Path=/; Max-Age=0''"
proof -
  have tok: "verifier_input (sample_request\<lparr>pathname := ''/logout''\<rparr>)
      = Some ''header.payload.signature''"
    using sample_request_token by (simp add: verifier_input_def)
  show ?thesis
    by (rule logout_response [OF tok sample_token_verifies]) simp
qed

section \<open>Failures that are not turned into a response\<close>

lemma handleEditorPage_unbound:
  "env kvBinding = None \<Longrightarrow>
   handleEditorPage env kvBinding configKey =
     Inr (Response (MissingKvHtml kvBinding) 500 [(''content-type'', ''text/html;charset=UTF-8'')])"
  by (simp add: handleEditorPage_def)

lemma handlePublish_unbound:
  "env kvBinding = None \<Longrightarrow> request_json request = Inr (JObject kvs) \<Longrightarrow>
   handlePublish p request env kvBinding configKey =
     (publish_failed (TypeError ''Cannot read properties of undefined (reading 'put')''), env)"
  by (simp add: handlePublish_def)

lemma handleApi_unbound:
  "env kvBinding = None \<Longrightarrow>
   handleApi env kvBinding configKey =
     Inl (TypeError ''Cannot read properties of undefined (reading 'get')'')"
  by (simp add: handleApi_def)

lemma fetch_api_unbound:
  assumes "verifier_input request = Some token" and "jwtVerify p token JWT_SECRET"
    and "pathname request = ''/api/config''" and "env KV_NAMESPACE_BINDING = None"
  shows "fetch p request env =
     (Inl (TypeError ''Cannot read properties of undefined (reading 'get')''), env)"
  using assms by (simp add: fetch_authenticated handleApi_unbound)

lemma fetch_store_failure:
  assumes "verifier_input request = Some token" and "jwtVerify p token JWT_SECRET"
    and "pathname request = ''/api/config'' \<or> pathname request = ''/''"
    and "env KV_NAMESPACE_BINDING = Some ns" and "outage ns = Some e"
  shows "fetch p request env = (Inl e, env)"
  using assms
  by (auto simp: fetch_authenticated handleApi_bound handleEditorPage_bound kv_get_def)

text \<open>
  C2, at the input where the code departs from it: a request with a verified token
  and the path \<open>/api/config\<close>, with no store bound. \<open>handleApi\<close> has no test of the binding
  (\<open>handleEditorPage\<close> has one) and no \<open>try\<close>; its \<open>TypeError\<close> is the rejection of
  \<open>fetch\<close>, not a response.
\<close>

theorem api_missing_binding_rejects:
  "fetch sample_platform (sample_request\<lparr>pathname := ''/api/config''\<rparr>) no_bindings
   = (Inl (TypeError ''Cannot read properties of undefined (reading 'get')''), no_bindings)"
proof -
  have tok: "verifier_input (sample_request\<lparr>pathname := ''/api/config''\<rparr>)
      = Some ''header.payload.signature''"
    using sample_request_token by (simp add: verifier_input_def)
  show ?thesis
    by (rule fetch_api_unbound [OF tok sample_token_verifies]) (simp_all add: no_bindings_def)
qed

section \<open>Login completion\<close>

lemma max_age_text: "string_of_nat 86400 = ''86400''"
  by (simp add: string_of_nat.simps)

lemma session_cookie_text:
  "session_cookie jwt = ''token='' @ jwt @ ''; HttpOnly; SameSite=Lax; Path=/; Max-Age=86400''"
  by (simp add: session_cookie_def max_age_text)

lemma headers_set_redirect:
  "Response_redirect url 302 = Inr response \<Longrightarrow>
   headers_set response name v = Inl (TypeError ''Can't modify immutable headers.'')"
  by (auto simp: Response_redirect_def headers_set_def)

lemma success_no_response: "success p url email \<noteq> Inr r"
  by (auto simp: success_def headers_set_def Response_redirect_def split: sum.splits)

text \<open>
  C3, at an input where the code departs from it: a completed login for which the
  user store gives an id and the token is signed. The callback builds the cookie text
  of the specification (\<open>session_cookie_text\<close>), but sets it on the response of
  \<open>Response.redirect\<close>, whose headers are immutable: it throws, and no response with the
  cookie is returned.
\<close>

theorem success_throws:
  "success sample_platform ''https://example.com'' ''user@example.com''
   = Inl (TypeError ''Can't modify immutable headers.'')"
  by (simp add: success_def getOrCreateUser_def sample_platform_def Response_redirect_def
      headers_set_def)

section \<open>The token taken from the cookie header\<close>

lemma js_split_not_Nil: "js_split sep s \<noteq> []"
  by (induction s) (auto split: list.splits)

lemma js_split_piece:
  "sep \<noteq> [] \<Longrightarrow> hd sep \<notin> set r \<Longrightarrow> js_split sep (r @ sep @ s) = r # js_split sep s"
proof (induction r)
  case Nil
  then show ?case by (cases sep) auto
next
  case (Cons c r)
  then have "\<not> prefix sep (c # r @ sep @ s)"
    by (cases sep) auto
  with Cons show ?case by simp
qed

lemma js_split_whole:
  "sep \<noteq> [] \<Longrightarrow> hd sep \<notin> set r \<Longrightarrow> js_split sep r = [r]"
proof (induction r)
  case Nil
  then show ?case by simp
next
  case (Cons c r)
  then have "\<not> prefix sep (c # r)"
    by (cases sep) auto
  with Cons show ?case by simp
qed

lemma js_split_rows:
  "\<forall>r \<in> set pre. CHR '';'' \<notin> set r \<Longrightarrow>
   js_split ''; '' (concat (map (\<lambda>r. r @ ''; '') pre) @ s) = pre @ js_split ''; '' s"
proof (induction pre)
  case Nil
  then show ?case by simp
next
  case (Cons r pre)
  then have "js_split ''; '' (r @ ''; '' @ (concat (map (\<lambda>r. r @ ''; '') pre) @ s))
      = r # js_split ''; '' (concat (map (\<lambda>r. r @ ''; '') pre) @ s)"
    by (intro js_split_piece) auto
  with Cons show ?case by simp
qed

lemma find_skip: "\<forall>r \<in> set pre. \<not> P r \<Longrightarrow> find P (pre @ xs) = find P xs"
  by (induction pre) auto

lemma token_row_first:
  assumes "CHR '';'' \<notin> set v" and "rest = [] \<or> prefix ''; '' rest"
  shows "hd (js_split ''; '' (''token='' @ v @ rest)) = ''token='' @ v"
proof (cases "rest = []")
  case True
  have "js_split ''; '' (''token='' @ v) = [''token='' @ v]"
    using assms(1) by (intro js_split_whole) auto
  with True show ?thesis by simp
next
  case False
  with assms(2) obtain s where s: "rest = ''; '' @ s"
    by (auto simp: prefix_def)
  have "js_split ''; '' ((''token='' @ v) @ ''; '' @ s) = (''token='' @ v) # js_split ''; '' s"
    using assms(1) by (intro js_split_piece) auto
  with s show ?thesis by simp
qed

lemma token_value:
  assumes "CHR ''='' \<notin> set v"
  shows "js_index (js_split ''='' (''token='' @ v)) 1 = Some v"
proof -
  have "js_split ''='' (''token'' @ ''='' @ v) = ''token'' # js_split ''='' v"
    by (intro js_split_piece) auto
  moreover have "js_split ''='' v = [v]"
    using assms by (intro js_split_whole) auto
  ultimately show ?thesis by (simp add: js_index_def)
qed

text \<open>
  C8, as the code has it. The header is cut at each \<open>'; '\<close> (a semicolon and a
  space); the first piece that starts with \<open>token=\<close> is taken, and of it the text
  between its first and its second \<open>=\<close>; an empty text is not verified. So: when the
  header is a run of pairs each followed by \<open>'; '\<close>, none of them with a semicolon or
  starting with \<open>token=\<close>, then \<open>token=v\<close>, then nothing or \<open>'; '\<close> and anything, and \<open>v\<close> is
  not empty and has neither \<open>;\<close> nor \<open>=\<close>, the verifier receives \<open>v\<close>.
\<close>

theorem cookie_token_received:
  assumes "\<forall>r \<in> set pre. CHR '';'' \<notin> set r \<and> \<not> prefix ''token='' r"
    and "CHR '';'' \<notin> set v" and "CHR ''='' \<notin> set v" and "v \<noteq> []"
    and "rest = [] \<or> prefix ''; '' rest"
    and "cookie request = Some (concat (map (\<lambda>r. r @ ''; '') pre) @ ''token='' @ v @ rest)"
  shows "verifier_input request = Some v"
proof -
  define row where "row = ''token='' @ v"
  define s where "s = row @ rest"
  have hdr: "cookie request = Some (concat (map (\<lambda>r. r @ ''; '') pre) @ s)"
    using assms(6) by (simp add: s_def row_def)
  have rows: "js_split ''; '' (concat (map (\<lambda>r. r @ ''; '') pre) @ s) = pre @ js_split ''; '' s"
    using assms(1) by (intro js_split_rows) auto
  have "hd (js_split ''; '' s) = row"
    using token_row_first [OF assms(2) assms(5)] by (simp add: s_def row_def)
  then obtain rs where rs: "js_split ''; '' s = row # rs"
    using js_split_not_Nil [of "''; ''" s] by (cases "js_split ''; '' s") auto
  have "prefix ''token='' row"
    by (simp add: row_def)
  then have found: "find (prefix ''token='') (pre @ js_split ''; '' s) = Some row"
    using assms(1) by (subst find_skip) (auto simp: rs)
  have "js_index (js_split ''='' row) 1 = Some v"
    using token_value [OF assms(3)] by (simp add: row_def)
  then show ?thesis
    using assms(4) hdr rows found
    by (simp add: verifier_input_def cookie_token_def)
qed

theorem cookie_token_received_witness:
  "verifier_input (sample_request\<lparr>cookie := Some ''a=1; token=abc; b=2''\<rparr>) = Some ''abc''"
  using cookie_token_received [of "[''a=1'']" "''abc''" "''; b=2''"
      "sample_request\<lparr>cookie := Some ''a=1; token=abc; b=2''\<rparr>"]
  by simp

theorem cookie_value_cut:
  "verifier_input (sample_request\<lparr>cookie := Some ''token=a=b''\<rparr>) = Some ''a''
   \<and> verifier_input (sample_request\<lparr>cookie := Some ''a=1;token=abc''\<rparr>) = None
   \<and> verifier_input (sample_request\<lparr>cookie := Some ''a=1; token=''\<rparr>) = None"
  by (simp add: verifier_input_def cookie_token_def js_index_def)

section \<open>The text embedded in the page\<close>

text \<open>
  The text an escape leaves is never longer than the text it was given, so the test in
  \<open>template_value\<close> that serves its termination always holds.
\<close>

lemma template_escape_shorter:
  "template_escape d ds = Done (t, r) \<Longrightarrow> length r \<le> length ds"
  by (auto simp: template_escape_def split: if_splits list.splits option.splits)




















subsection \<open>Flat values\<close>





subsection \<open>Flat objects\<close>

lemma skip_ws_Cons [simp]: "skip_ws (c # cs) = (if is_ws c then skip_ws cs else c # cs)"
  by (simp add: skip_ws_def)

lemma skip_ws_Nil [simp]: "skip_ws [] = []"
  by (simp add: skip_ws_def)

lemma is_ws_simps [simp]:
  "is_ws (CHR 0x0A)" "is_ws (CHR '' '')" "\<not> is_ws (CHR '':'')" "\<not> is_ws (CHR '','')"
  "\<not> is_ws (CHR ''}'')" "\<not> is_ws (CHR 0x22)" "\<not> is_ws (CHR ''{'')"
  by (simp_all add: is_ws_def)












subsection \<open>The properties of the parsed object\<close>




subsection \<open>From the text to flat members\<close>



section \<open>The rows of the editor\<close>











end
